theory Spec2Isabelle
  imports Complex_Main
begin

section \<open>Floating-point values of the kernel\<close>

text \<open>
  The kernel \<^verbatim>\<open>quench\<close> of \<^verbatim>\<open>larndsim/quenching.py\<close> is compiled by
  \<^verbatim>\<open>@cuda.jit\<close> and computes on IEEE-754 numbers. A value is a finite number, one of
  the two infinities, or not-a-number. Finite arithmetic is exact here: rounding, overflow
  and underflow are left out, and so is the sign of zero (every zero is the positive one).
  The special values follow IEEE-754, which is what the device code does: no arithmetic
  operation raises, a division by zero gives an infinity or not-a-number, the logarithm of
  zero is minus infinity and the logarithm of a negative number is not-a-number, and every
  ordered comparison with not-a-number is false.
\<close>

datatype fl = Fin real | PInf | NInf | NaN

fun isnan :: "fl \<Rightarrow> bool" where
  "isnan NaN = True"
| "isnan _ = False"

fun f_neg :: "fl \<Rightarrow> fl" where
  "f_neg (Fin a) = Fin (- a)"
| "f_neg PInf = NInf"
| "f_neg NInf = PInf"
| "f_neg NaN = NaN"

fun f_add :: "fl \<Rightarrow> fl \<Rightarrow> fl" where
  "f_add NaN _ = NaN"
| "f_add _ NaN = NaN"
| "f_add PInf NInf = NaN"
| "f_add NInf PInf = NaN"
| "f_add PInf _ = PInf"
| "f_add _ PInf = PInf"
| "f_add NInf _ = NInf"
| "f_add _ NInf = NInf"
| "f_add (Fin a) (Fin b) = Fin (a + b)"

definition f_sub :: "fl \<Rightarrow> fl \<Rightarrow> fl" where
  "f_sub a b = f_add a (f_neg b)"

fun f_mul :: "fl \<Rightarrow> fl \<Rightarrow> fl" where
  "f_mul NaN _ = NaN"
| "f_mul _ NaN = NaN"
| "f_mul PInf PInf = PInf"
| "f_mul PInf NInf = NInf"
| "f_mul NInf PInf = NInf"
| "f_mul NInf NInf = PInf"
| "f_mul PInf (Fin b) = (if b = 0 then NaN else if 0 < b then PInf else NInf)"
| "f_mul NInf (Fin b) = (if b = 0 then NaN else if 0 < b then NInf else PInf)"
| "f_mul (Fin a) PInf = (if a = 0 then NaN else if 0 < a then PInf else NInf)"
| "f_mul (Fin a) NInf = (if a = 0 then NaN else if 0 < a then NInf else PInf)"
| "f_mul (Fin a) (Fin b) = Fin (a * b)"

fun f_div :: "fl \<Rightarrow> fl \<Rightarrow> fl" where
  "f_div NaN _ = NaN"
| "f_div _ NaN = NaN"
| "f_div PInf PInf = NaN"
| "f_div PInf NInf = NaN"
| "f_div NInf PInf = NaN"
| "f_div NInf NInf = NaN"
| "f_div (Fin a) PInf = Fin 0"
| "f_div (Fin a) NInf = Fin 0"
| "f_div PInf (Fin b) = (if b < 0 then NInf else PInf)"
| "f_div NInf (Fin b) = (if b < 0 then PInf else NInf)"
| "f_div (Fin a) (Fin b) =
     (if b = 0 then (if a = 0 then NaN else if 0 < a then PInf else NInf)
      else Fin (a / b))"

fun f_abs :: "fl \<Rightarrow> fl" where
  "f_abs (Fin a) = Fin \<bar>a\<bar>"
| "f_abs PInf = PInf"
| "f_abs NInf = PInf"
| "f_abs NaN = NaN"

text \<open>\<^verbatim>\<open>math.log\<close> on the device.\<close>

fun f_log :: "fl \<Rightarrow> fl" where
  "f_log (Fin a) = (if a < 0 then NaN else if a = 0 then NInf else Fin (ln a))"
| "f_log PInf = PInf"
| "f_log NInf = NaN"
| "f_log NaN = NaN"

fun f_le :: "fl \<Rightarrow> fl \<Rightarrow> bool" where
  "f_le NaN _ = False"
| "f_le _ NaN = False"
| "f_le NInf _ = True"
| "f_le _ PInf = True"
| "f_le PInf _ = False"
| "f_le _ NInf = False"
| "f_le (Fin a) (Fin b) = (a \<le> b)"

fun f_lt :: "fl \<Rightarrow> fl \<Rightarrow> bool" where
  "f_lt NaN _ = False"
| "f_lt _ NaN = False"
| "f_lt _ NInf = False"
| "f_lt NInf _ = True"
| "f_lt PInf _ = False"
| "f_lt _ PInf = True"
| "f_lt (Fin a) (Fin b) = (a < b)"

text \<open>
  Python's \<^verbatim>\<open>max(a, b)\<close> keeps its first argument unless the second one is greater, and
  \<^verbatim>\<open>min(a, b)\<close> keeps its first argument unless the second one is smaller.
\<close>

definition py_max :: "fl \<Rightarrow> fl \<Rightarrow> fl" where
  "py_max a b = (if f_lt a b then b else a)"

definition py_min :: "fl \<Rightarrow> fl \<Rightarrow> fl" where
  "py_min a b = (if f_lt b a then b else a)"

section \<open>Data\<close>

text \<open>
  One entry of the structured array \<^verbatim>\<open>tracks\<close>. The kernel touches the eight fields
  below; the record is extensible, so every other field of a segment is part of the extension.
\<close>

record track =
  dEdx :: fl
  dE :: fl
  x :: fl
  y :: fl
  z :: fl
  pixel_plane :: int
  n_electrons :: fl
  n_photons :: fl

text \<open>
  The module \<^verbatim>\<open>consts\<close> (\<^verbatim>\<open>detector\<close>, \<^verbatim>\<open>physics\<close>, \<^verbatim>\<open>light\<close>) is not part of the
  sources at hand: its constants are parameters of the kernel, collected in one record.
\<close>

record constants =
  E_FIELD :: fl  \<comment> \<open>\<^verbatim>\<open>detector\<close>\<close>
  LAR_DENSITY :: fl
  V_DRIFT :: fl
  ELECTRON_LIFETIME :: fl
  DEFAULT_PLANE_INDEX :: int
  BOX :: int  \<comment> \<open>\<^verbatim>\<open>physics\<close>\<close>
  BIRKS :: int
  DATA :: int
  BOX_ALPHA :: fl
  BOX_BETA :: fl
  BIRKS_Ab :: fl
  BIRKS_kb :: fl
  W_ION :: fl
  W_PH :: fl  \<comment> \<open>\<^verbatim>\<open>light\<close>\<close>
  SCINT_PRESCALE :: fl

text \<open>
  \<^verbatim>\<open>TPC_BORDERS\<close> is a free name of the module as well, taken as a parameter: a table of
  planes, each \<^verbatim>\<open>[[x0, x1], [y0, y1], [z0, z1]]\<close>.
\<close>

type_synonym plane = "(fl \<times> fl) \<times> (fl \<times> fl) \<times> (fl \<times> fl)"

definition p00 :: "plane \<Rightarrow> fl" where "p00 plane = fst (fst plane)"
definition p01 :: "plane \<Rightarrow> fl" where "p01 plane = snd (fst plane)"
definition p10 :: "plane \<Rightarrow> fl" where "p10 plane = fst (fst (snd plane))"
definition p11 :: "plane \<Rightarrow> fl" where "p11 plane = snd (fst (snd plane))"
definition p20 :: "plane \<Rightarrow> fl" where "p20 plane = fst (snd (snd plane))"
definition p21 :: "plane \<Rightarrow> fl" where "p21 plane = snd (snd (snd plane))"

datatype error =
  ValueError  \<comment> \<open>"Invalid recombination mode": the spec's InvalidModelSelector\<close>
| RuntimeError  \<comment> \<open>"Invalid recombination value": the spec's InvalidRecombinationValue\<close>
| NameError  \<comment> \<open>the call of a name the module does not bind\<close>

section \<open>The kernel\<close>

definition tol :: fl where
  "tol = Fin (2 / 100)"

text \<open>The condition of lines 41 to 43: the point of the segment lies in the padded box.\<close>

definition in_padded_box :: "plane \<Rightarrow> 'a track_scheme \<Rightarrow> bool" where
  "in_padded_box plane trk \<longleftrightarrow>
     f_le (f_sub (p00 plane) tol) (x trk) \<and> f_le (x trk) (f_add (p01 plane) tol) \<and>
     f_le (f_sub (p10 plane) tol) (y trk) \<and> f_le (y trk) (f_add (p11 plane) tol) \<and>
     f_le (py_min (f_sub (p21 plane) tol) (f_sub (p20 plane) tol)) (z trk) \<and>
     f_le (z trk) (py_max (f_add (p21 plane) tol) (f_add (p20 plane) tol))"

text \<open>
  The loop of lines 40 to 45 over \<^verbatim>\<open>enumerate(TPC_BORDERS)\<close>: \<open>ip\<close> is the index of the
  head of the remaining table, and the last argument is the value \<^verbatim>\<open>pixel_plane\<close> keeps
  when the loop ends without a \<^verbatim>\<open>break\<close>.
\<close>

fun scan_planes :: "'a track_scheme \<Rightarrow> plane list \<Rightarrow> int \<Rightarrow> int \<Rightarrow> int" where
  "scan_planes trk [] ip pp = pp"
| "scan_planes trk (plane # rest) ip pp =
     (if in_padded_box plane trk then ip else scan_planes trk rest (ip + 1) pp)"

text \<open>Line 34.\<close>

definition box_csi :: "constants \<Rightarrow> fl \<Rightarrow> fl" where
  "box_csi c dEdx' = f_div (f_mul (BOX_BETA c) dEdx') (f_mul (E_FIELD c) (LAR_DENSITY c))"

text \<open>Line 35.\<close>

definition box_recomb :: "constants \<Rightarrow> fl \<Rightarrow> fl" where
  "box_recomb c dEdx' =
     (let csi = box_csi c dEdx'
      in py_max (Fin 0) (f_div (f_log (f_add (BOX_ALPHA c) csi)) csi))"

text \<open>Line 38.\<close>

definition birks_recomb :: "constants \<Rightarrow> fl \<Rightarrow> fl" where
  "birks_recomb c dEdx' =
     f_div (BIRKS_Ab c)
       (f_add (Fin 1) (f_div (f_mul (BIRKS_kb c) dEdx') (f_mul (E_FIELD c) (LAR_DENSITY c))))"

text \<open>
  Lines 29 to 55: the selection of the model. A branch that completes gives the value of
  \<^verbatim>\<open>recomb\<close> and the array; a branch that raises gives the error and the array as it is
  at that moment. The DATA branch writes \<^verbatim>\<open>pixel_plane\<close> through the view \<^verbatim>\<open>track\<close>
  of \<^verbatim>\<open>tracks[itrk]\<close> (line 46). When a plane other than the sentinel has been chosen,
  lines 49 to 51 read the table at the index the loop found and compute the drift time, and
  line 52 calls \<^verbatim>\<open>exp\<close>. The module binds no such name (line 6 imports only \<^verbatim>\<open>log\<close> and
  \<^verbatim>\<open>isnan\<close> from \<^verbatim>\<open>math\<close>), so the call raises \<^verbatim>\<open>NameError\<close>.
\<close>

definition model_branch ::
  "constants \<Rightarrow> plane list \<Rightarrow> 'a track_scheme list \<Rightarrow> int \<Rightarrow> nat \<Rightarrow>
   error \<times> 'a track_scheme list + fl \<times> 'a track_scheme list" where
  "model_branch c TPC_BORDERS tracks mode itrk =
     (if mode = BOX c then Inr (box_recomb c (dEdx (tracks ! itrk)), tracks)
      else if mode = BIRKS c then Inr (birks_recomb c (dEdx (tracks ! itrk)), tracks)
      else if mode = DATA c then
        (let pp = scan_planes (tracks ! itrk) TPC_BORDERS 0 (DEFAULT_PLANE_INDEX c);
             tracks1 = tracks[itrk := (tracks ! itrk)\<lparr>pixel_plane := pp\<rparr>]
         in if pp \<noteq> DEFAULT_PLANE_INDEX c
            then
              (let z_anode = p20 (TPC_BORDERS ! nat pp);
                   drift_distance = f_abs (f_sub (z (tracks1 ! itrk)) z_anode);
                   drift_time = f_div drift_distance (V_DRIFT c)
               in Inl (NameError, tracks1))
            else Inr (Fin 0, tracks1))
      else Inl (ValueError, tracks))"

text \<open>
  The kernel, for the thread whose \<^verbatim>\<open>cuda.grid(1)\<close> is \<open>itrk\<close>. A raise ends the
  thread and carries the array as it is at that moment; a thread beyond the end of the array
  does nothing. The launch of the grid, the other threads and the way a raise reaches the
  host are not part of the kernel's code and are not modelled.
\<close>

definition quench ::
  "constants \<Rightarrow> plane list \<Rightarrow> 'a track_scheme list \<Rightarrow> int \<Rightarrow> nat \<Rightarrow>
   error \<times> 'a track_scheme list + 'a track_scheme list" where
  "quench c TPC_BORDERS tracks mode itrk =
     (if itrk < length tracks then
        (let dE' = dE (tracks ! itrk)
         in case model_branch c TPC_BORDERS tracks mode itrk of
              Inl (e, tracks1) \<Rightarrow> Inl (e, tracks1)
            | Inr (recomb, tracks1) \<Rightarrow>
                if isnan recomb then Inl (RuntimeError, tracks1)
                else
                  (let tracks2 = tracks1[itrk := (tracks1 ! itrk)
                         \<lparr>n_electrons := f_div (f_mul recomb dE') (W_ION c)\<rparr>]
                   in Inr (tracks2[itrk := (tracks2 ! itrk)
                         \<lparr>n_photons := f_mul (f_sub (f_div dE' (W_PH c))
                            (n_electrons (tracks2 ! itrk))) (SCINT_PRESCALE c)\<rparr>])))
      else Inr tracks)"

text \<open>The array after the thread has run, whether it raised or not.\<close>

fun array_after :: "error \<times> 'a list + 'a list \<Rightarrow> 'a list" where
  "array_after (Inl (e, ts)) = ts"
| "array_after (Inr ts) = ts"

section \<open>Sample data\<close>

text \<open>
  Values for the worked examples: the constants of the spec's concrete scenario where it
  gives them, two overlapping planes (the second with its z-bounds in decreasing order), a
  segment inside both padded boxes, one inside the second box only, one far outside every box,
  one at rest and one whose \<open>dEdx\<close> is not a number.
\<close>

definition sample_consts :: constants where
  "sample_consts = \<lparr>E_FIELD = Fin (1 / 2), LAR_DENSITY = Fin (14 / 10), V_DRIFT = Fin (16 / 100),
     ELECTRON_LIFETIME = Fin 2200, DEFAULT_PLANE_INDEX = 48879, BOX = 1, BIRKS = 2, DATA = 3,
     BOX_ALPHA = Fin (93 / 100), BOX_BETA = Fin (207 / 1000), BIRKS_Ab = Fin (8 / 10),
     BIRKS_kb = Fin (486 / 10000), W_ION = Fin (236 / 10000000), W_PH = Fin (195 / 10000000),
     SCINT_PRESCALE = Fin 1\<rparr>"

definition sample_borders :: "plane list" where
  "sample_borders =
     [((Fin 0, Fin 10), (Fin 0, Fin 10), (Fin 0, Fin 30)),
      ((Fin 5, Fin 20), (Fin 0, Fin 10), (Fin 30, Fin 0))]"

definition sample_track :: track where
  "sample_track = \<lparr>dEdx = Fin 2, dE = Fin 10, x = Fin 6, y = Fin 1, z = Fin 5,
     pixel_plane = 7, n_electrons = Fin 0, n_photons = Fin 0\<rparr>"

definition far_track :: track where
  "far_track = sample_track\<lparr>x := Fin 100\<rparr>"

definition still_track :: track where
  "still_track = sample_track\<lparr>dEdx := Fin 0\<rparr>"

definition nan_track :: track where
  "nan_track = sample_track\<lparr>dEdx := NaN\<rparr>"

definition second_track :: track where
  "second_track = sample_track\<lparr>x := Fin 15\<rparr>"

section \<open>Unfolding rules\<close>

lemmas sample_defs =
  sample_consts_def sample_borders_def sample_track_def far_track_def still_track_def
  nan_track_def second_track_def

lemmas kernel_defs =
  quench_def model_branch_def box_recomb_def box_csi_def birks_recomb_def
  in_padded_box_def tol_def py_max_def py_min_def f_sub_def
  p00_def p01_def p10_def p11_def p20_def p21_def Let_def

section \<open>The plane scan\<close>

text \<open>
  For finite bounds and a finite point the condition is the padded box of the table entry,
  whichever way round the two z-bounds are given.
\<close>

lemma in_padded_box_finite:
  "in_padded_box ((Fin x0, Fin x1), (Fin y0, Fin y1), (Fin z0, Fin z1))
     (trk\<lparr>x := Fin a, y := Fin b, z := Fin d\<rparr>) \<longleftrightarrow>
   x0 - 2 / 100 \<le> a \<and> a \<le> x1 + 2 / 100 \<and> y0 - 2 / 100 \<le> b \<and> b \<le> y1 + 2 / 100 \<and>
   min z0 z1 - 2 / 100 \<le> d \<and> d \<le> max z0 z1 + 2 / 100"
  by (auto simp: in_padded_box_def tol_def py_max_def py_min_def f_sub_def
      p00_def p01_def p10_def p11_def p20_def p21_def)

lemma scan_planes_none:
  "(\<forall>p \<in> set B. \<not> in_padded_box p trk) \<Longrightarrow> scan_planes trk B ip pp = pp"
  by (induction B arbitrary: ip) auto

lemma scan_planes_first:
  "i < length B \<Longrightarrow> in_padded_box (B ! i) trk \<Longrightarrow> (\<forall>j<i. \<not> in_padded_box (B ! j) trk)
   \<Longrightarrow> scan_planes trk B ip pp = ip + int i"
proof (induction B arbitrary: ip i)
  case Nil
  then show ?case by simp
next
  case (Cons p B)
  show ?case
  proof (cases i)
    case 0
    with Cons.prems show ?thesis by simp
  next
    case (Suc k)
    with Cons.prems have "\<not> in_padded_box p trk" by auto
    moreover have "scan_planes trk B (ip + 1) pp = ip + 1 + int k"
      using Cons.prems Suc by (intro Cons.IH) auto
    ultimately show ?thesis using Suc by simp
  qed
qed

section \<open>The model selection\<close>

lemma model_branch_array:
  "model_branch c B tracks mode itrk = Inr (r, t1) \<Longrightarrow>
   t1 = tracks \<and> (mode = BOX c \<or> mode = BIRKS c) \<or>
   mode \<noteq> BOX c \<and> mode \<noteq> BIRKS c \<and> mode = DATA c \<and>
   t1 = tracks[itrk := (tracks ! itrk)
     \<lparr>pixel_plane := scan_planes (tracks ! itrk) B 0 (DEFAULT_PLANE_INDEX c)\<rparr>]"
  by (auto simp: model_branch_def Let_def split: if_splits)

lemma model_branch_length:
  "model_branch c B tracks mode itrk = Inr (r, t1) \<Longrightarrow> length t1 = length tracks"
  by (auto dest: model_branch_array)

lemma box_value_pos:
  assumes "0 < s" and "1 < a + s"
  shows "py_max (Fin 0) (f_div (f_log (f_add (Fin a) (Fin s))) (Fin s)) = Fin (ln (a + s) / s)"
    and "0 < ln (a + s) / s"
proof -
  from assms have "0 < ln (a + s)" by simp
  with assms show "0 < ln (a + s) / s" by simp
  with assms show "py_max (Fin 0) (f_div (f_log (f_add (Fin a) (Fin s))) (Fin s)) = Fin (ln (a + s) / s)"
    by (simp add: py_max_def)
qed

lemma box_value_floor:
  assumes "0 < s" and "a + s \<le> 1"
  shows "py_max (Fin 0) (f_div (f_log (f_add (Fin a) (Fin s))) (Fin s)) = Fin 0"
proof -
  consider "a + s < 0" | "a + s = 0" | "0 < a + s"
    by linarith
  then show ?thesis
  proof cases
    case 1
    then show ?thesis by (simp add: py_max_def)
  next
    case 2
    with assms show ?thesis by (simp add: py_max_def)
  next
    case 3
    with assms have "ln (a + s) \<le> 0" by simp
    with assms have "ln (a + s) / s \<le> 0" by (simp add: divide_le_0_iff)
    with 3 assms show ?thesis by (simp add: py_max_def)
  qed
qed

lemma birks_value:
  assumes "0 < A" "0 < k" "0 < e" "0 < \<rho>" "0 \<le> d"
  shows "f_div (Fin A) (f_add (Fin 1) (f_div (f_mul (Fin k) (Fin d)) (f_mul (Fin e) (Fin \<rho>)))) =
     Fin (A / (1 + k * d / (e * \<rho>)))"
    and "0 \<le> A / (1 + k * d / (e * \<rho>))"
    and "A / (1 + k * d / (e * \<rho>)) \<le> A"
proof -
  from assms have q: "0 \<le> k * d / (e * \<rho>)" by simp
  then have one: "1 \<le> 1 + k * d / (e * \<rho>)" by simp
  then have nz: "1 + k * d / (e * \<rho>) \<noteq> 0" by linarith
  from assms have "e * \<rho> \<noteq> 0" by simp
  with nz show "f_div (Fin A) (f_add (Fin 1) (f_div (f_mul (Fin k) (Fin d)) (f_mul (Fin e) (Fin \<rho>)))) =
     Fin (A / (1 + k * d / (e * \<rho>)))" by simp
  from one assms(1) show "0 \<le> A / (1 + k * d / (e * \<rho>))" by simp
  from one assms(1) show "A / (1 + k * d / (e * \<rho>)) \<le> A"
    by (simp add: divide_le_eq)
qed

lemma f_sub_zero: "f_sub v (Fin 0) = v"
  by (cases v) (simp_all add: f_sub_def)

lemma py_max_zero_not_nan: "\<not> isnan (py_max (Fin 0) v)"
  by (cases v) (simp_all add: py_max_def)

lemma box_recomb_not_nan: "\<not> isnan (box_recomb c d)"
  by (simp add: box_recomb_def Let_def py_max_zero_not_nan)

section \<open>The kernel as a whole\<close>

lemma quench_data_array:
  assumes "mode = DATA c" "DATA c \<noteq> BOX c" "DATA c \<noteq> BIRKS c" "itrk < length tracks"
  shows "pixel_plane (array_after (quench c B tracks mode itrk) ! itrk) =
     scan_planes (tracks ! itrk) B 0 (DEFAULT_PLANE_INDEX c)"
  using assms by (simp add: quench_def model_branch_def Let_def)

lemma quench_shape:
  assumes "quench c B tracks mode itrk = Inr tracks'" and "itrk < length tracks"
  shows "\<exists>recomb pp ne np.
     model_branch c B tracks mode itrk =
       Inr (recomb, if mode = BOX c \<or> mode = BIRKS c then tracks
                    else tracks[itrk := (tracks ! itrk)\<lparr>pixel_plane := pp\<rparr>]) \<and>
     tracks' = tracks[itrk := (tracks ! itrk)
       \<lparr>pixel_plane := (if mode = BOX c \<or> mode = BIRKS c then pixel_plane (tracks ! itrk) else pp),
        n_electrons := ne, n_photons := np\<rparr>]"
proof (cases "model_branch c B tracks mode itrk")
  case (Inl e)
  with assms show ?thesis by (simp add: quench_def)
next
  case (Inr rt)
  obtain recomb tracks1 where rt: "rt = (recomb, tracks1)" by (cases rt)
  from Inr rt have mb: "model_branch c B tracks mode itrk = Inr (recomb, tracks1)" by simp
  from assms mb have nn: "\<not> isnan recomb"
    by (auto simp: quench_def split: if_splits)
  from model_branch_array [OF mb] show ?thesis
  proof
    assume a: "tracks1 = tracks \<and> (mode = BOX c \<or> mode = BIRKS c)"
    with assms mb nn show ?thesis
      by (auto simp: quench_def Let_def)
  next
    assume a: "mode \<noteq> BOX c \<and> mode \<noteq> BIRKS c \<and> mode = DATA c \<and>
      tracks1 = tracks[itrk := (tracks ! itrk)
        \<lparr>pixel_plane := scan_planes (tracks ! itrk) B 0 (DEFAULT_PLANE_INDEX c)\<rparr>]"
    with assms mb nn show ?thesis
      by (auto simp: quench_def Let_def)
  qed
qed

section \<open>The claims\<close>

text \<open>
  C1. A thread that addresses a segment and completes without raising has written
  \<open>n_electrons = recomb * dE / W_ION\<close> and
  \<open>n_photons = (dE / W_PH - n_electrons) * SCINT_PRESCALE\<close>, where \<open>recomb\<close> is the value
  the selected branch produced and \<open>dE\<close> the segment's field; this holds whatever the mode,
  the DATA mode without a matching plane included.
\<close>

theorem quench_final_formulas:
  assumes "quench c B tracks mode itrk = Inr tracks'" and "itrk < length tracks"
  shows "\<exists>recomb tracks1. model_branch c B tracks mode itrk = Inr (recomb, tracks1) \<and>
     \<not> isnan recomb \<and>
     n_electrons (tracks' ! itrk) = f_div (f_mul recomb (dE (tracks ! itrk))) (W_ION c) \<and>
     n_photons (tracks' ! itrk) =
       f_mul (f_sub (f_div (dE (tracks ! itrk)) (W_PH c)) (n_electrons (tracks' ! itrk)))
         (SCINT_PRESCALE c)"
proof (cases "model_branch c B tracks mode itrk")
  case (Inl e)
  with assms show ?thesis by (simp add: quench_def)
next
  case (Inr rt)
  obtain recomb tracks1 where rt: "rt = (recomb, tracks1)" by (cases rt)
  have len: "length tracks1 = length tracks"
    using Inr rt by (auto dest: model_branch_length)
  from assms Inr rt have nn: "\<not> isnan recomb"
    by (auto simp: quench_def split: if_splits)
  with assms Inr rt len show ?thesis
    by (auto simp: quench_def Let_def)
qed

theorem quench_final_formulas_witness:
  "quench sample_consts sample_borders [far_track] 3 0 =
     Inr [far_track\<lparr>pixel_plane := 48879, n_electrons := Fin 0, n_photons := Fin (20000000 / 39)\<rparr>] \<and>
   (\<exists>recomb tracks1. model_branch sample_consts sample_borders [far_track] 3 0 = Inr (recomb, tracks1) \<and>
     \<not> isnan recomb \<and>
     n_electrons ([far_track\<lparr>pixel_plane := 48879, n_electrons := Fin 0, n_photons := Fin (20000000 / 39)\<rparr>] ! 0) =
       f_div (f_mul recomb (dE ([far_track] ! 0))) (W_ION sample_consts) \<and>
     n_photons ([far_track\<lparr>pixel_plane := 48879, n_electrons := Fin 0, n_photons := Fin (20000000 / 39)\<rparr>] ! 0) =
       f_mul (f_sub (f_div (dE ([far_track] ! 0)) (W_PH sample_consts))
         (n_electrons ([far_track\<lparr>pixel_plane := 48879, n_electrons := Fin 0, n_photons := Fin (20000000 / 39)\<rparr>] ! 0)))
         (SCINT_PRESCALE sample_consts))"
proof -
  have h: "quench sample_consts sample_borders [far_track] 3 0 =
     Inr [far_track\<lparr>pixel_plane := 48879, n_electrons := Fin 0, n_photons := Fin (20000000 / 39)\<rparr>]"
    by (simp add: kernel_defs sample_defs)
  have l: "0 < length [far_track]" by simp
  show ?thesis by (rule conjI [OF h quench_final_formulas [OF h l]])
qed

text \<open>
  C2. Under BOX, with \<open>csi = BOX_BETA * dEdx / (E_FIELD * LAR_DENSITY)\<close>, the branch
  produces \<open>max(0, log(BOX_ALPHA + csi) / csi)\<close>. For finite \<open>BOX_ALPHA\<close> and finite
  \<open>csi > 0\<close> this value is positive when \<open>BOX_ALPHA + csi > 1\<close> and is \<open>0\<close> when
  \<open>BOX_ALPHA + csi \<le> 1\<close>.
\<close>

theorem box_branch:
  assumes "mode = BOX c" and "itrk < length tracks"
  shows "model_branch c B tracks mode itrk =
      Inr (py_max (Fin 0)
             (f_div (f_log (f_add (BOX_ALPHA c)
                  (f_div (f_mul (BOX_BETA c) (dEdx (tracks ! itrk))) (f_mul (E_FIELD c) (LAR_DENSITY c)))))
                (f_div (f_mul (BOX_BETA c) (dEdx (tracks ! itrk))) (f_mul (E_FIELD c) (LAR_DENSITY c)))),
           tracks) \<and>
    (\<forall>a s. BOX_ALPHA c = Fin a \<and>
        f_div (f_mul (BOX_BETA c) (dEdx (tracks ! itrk))) (f_mul (E_FIELD c) (LAR_DENSITY c)) = Fin s \<and>
        0 < s \<longrightarrow>
        (1 < a + s \<longrightarrow> (\<exists>r. 0 < r \<and> model_branch c B tracks mode itrk = Inr (Fin r, tracks))) \<and>
        (a + s \<le> 1 \<longrightarrow> model_branch c B tracks mode itrk = Inr (Fin 0, tracks)))"
proof (intro conjI allI impI)
  show eq: "model_branch c B tracks mode itrk =
      Inr (py_max (Fin 0)
             (f_div (f_log (f_add (BOX_ALPHA c)
                  (f_div (f_mul (BOX_BETA c) (dEdx (tracks ! itrk))) (f_mul (E_FIELD c) (LAR_DENSITY c)))))
                (f_div (f_mul (BOX_BETA c) (dEdx (tracks ! itrk))) (f_mul (E_FIELD c) (LAR_DENSITY c)))),
           tracks)"
    using assms(1) by (simp add: model_branch_def box_recomb_def box_csi_def Let_def)
  fix a s
  assume h: "BOX_ALPHA c = Fin a \<and>
        f_div (f_mul (BOX_BETA c) (dEdx (tracks ! itrk))) (f_mul (E_FIELD c) (LAR_DENSITY c)) = Fin s \<and>
        0 < s"
  show "\<exists>r. 0 < r \<and> model_branch c B tracks mode itrk = Inr (Fin r, tracks)" if "1 < a + s"
    using eq h box_value_pos [of s a] that by (intro exI [of _ "ln (a + s) / s"]) simp
  show "model_branch c B tracks mode itrk = Inr (Fin 0, tracks)" if "a + s \<le> 1"
    using eq h box_value_floor [of s a] that by simp
qed

theorem box_branch_witness:
  "model_branch sample_consts sample_borders [sample_track] 1 0 =
      Inr (py_max (Fin 0)
             (f_div (f_log (f_add (BOX_ALPHA sample_consts)
                  (f_div (f_mul (BOX_BETA sample_consts) (dEdx ([sample_track] ! 0)))
                     (f_mul (E_FIELD sample_consts) (LAR_DENSITY sample_consts)))))
                (f_div (f_mul (BOX_BETA sample_consts) (dEdx ([sample_track] ! 0)))
                   (f_mul (E_FIELD sample_consts) (LAR_DENSITY sample_consts)))),
           [sample_track]) \<and>
   (\<exists>r. 0 < r \<and> model_branch sample_consts sample_borders [sample_track] 1 0 = Inr (Fin r, [sample_track])) \<and>
   model_branch (sample_consts\<lparr>BOX_ALPHA := Fin (1 / 5)\<rparr>) sample_borders [sample_track] 1 0 =
     Inr (Fin 0, [sample_track])"
proof -
  have m: "1 = BOX sample_consts" "1 = BOX (sample_consts\<lparr>BOX_ALPHA := Fin (1 / 5)\<rparr>)"
    by (simp_all add: sample_defs)
  have l: "0 < length [sample_track]" by simp
  have a: "BOX_ALPHA sample_consts = Fin (93 / 100) \<and>
    f_div (f_mul (BOX_BETA sample_consts) (dEdx ([sample_track] ! 0)))
      (f_mul (E_FIELD sample_consts) (LAR_DENSITY sample_consts)) = Fin (207 / 350) \<and>
    (0::real) < 207 / 350"
    by (simp add: sample_defs)
  have b: "BOX_ALPHA (sample_consts\<lparr>BOX_ALPHA := Fin (1 / 5)\<rparr>) = Fin (1 / 5) \<and>
    f_div (f_mul (BOX_BETA (sample_consts\<lparr>BOX_ALPHA := Fin (1 / 5)\<rparr>)) (dEdx ([sample_track] ! 0)))
      (f_mul (E_FIELD (sample_consts\<lparr>BOX_ALPHA := Fin (1 / 5)\<rparr>))
         (LAR_DENSITY (sample_consts\<lparr>BOX_ALPHA := Fin (1 / 5)\<rparr>))) = Fin (207 / 350) \<and>
    (0::real) < 207 / 350"
    by (simp add: sample_defs)
  note t1 = box_branch [OF m(1) l, of sample_borders]
  note t2 = box_branch [OF m(2) l, of sample_borders]
  have p: "(1::real) < 93 / 100 + 207 / 350" by simp
  have q: "(1::real) / 5 + 207 / 350 \<le> 1" by simp
  from t1 have c1: "model_branch sample_consts sample_borders [sample_track] 1 0 =
      Inr (py_max (Fin 0)
             (f_div (f_log (f_add (BOX_ALPHA sample_consts)
                  (f_div (f_mul (BOX_BETA sample_consts) (dEdx ([sample_track] ! 0)))
                     (f_mul (E_FIELD sample_consts) (LAR_DENSITY sample_consts)))))
                (f_div (f_mul (BOX_BETA sample_consts) (dEdx ([sample_track] ! 0)))
                   (f_mul (E_FIELD sample_consts) (LAR_DENSITY sample_consts)))),
           [sample_track])" by (rule conjunct1)
  from t1 a p have c2: "\<exists>r. 0 < r \<and> model_branch sample_consts sample_borders [sample_track] 1 0 = Inr (Fin r, [sample_track])"
    by blast
  from t2 b q have c3: "model_branch (sample_consts\<lparr>BOX_ALPHA := Fin (1 / 5)\<rparr>) sample_borders [sample_track] 1 0 =
     Inr (Fin 0, [sample_track])"
    by blast
  from c1 c2 c3 show ?thesis by (intro conjI)
qed

text \<open>
  C3. Under BIRKS the branch produces
  \<open>BIRKS_Ab / (1 + BIRKS_kb * dEdx / (E_FIELD * LAR_DENSITY))\<close>. For finite positive
  constants and finite \<open>dEdx \<ge> 0\<close> this value lies between \<open>0\<close> and \<open>BIRKS_Ab\<close>.
\<close>

theorem birks_branch:
  assumes "mode = BIRKS c" and "BIRKS c \<noteq> BOX c" and "itrk < length tracks"
  shows "model_branch c B tracks mode itrk =
      Inr (f_div (BIRKS_Ab c)
             (f_add (Fin 1)
                (f_div (f_mul (BIRKS_kb c) (dEdx (tracks ! itrk))) (f_mul (E_FIELD c) (LAR_DENSITY c)))),
           tracks) \<and>
    (\<forall>A k e \<rho> d. BIRKS_Ab c = Fin A \<and> BIRKS_kb c = Fin k \<and> E_FIELD c = Fin e \<and>
        LAR_DENSITY c = Fin \<rho> \<and> dEdx (tracks ! itrk) = Fin d \<and>
        0 < A \<and> 0 < k \<and> 0 < e \<and> 0 < \<rho> \<and> 0 \<le> d \<longrightarrow>
        (\<exists>r. model_branch c B tracks mode itrk = Inr (Fin r, tracks) \<and> 0 \<le> r \<and> r \<le> A))"
proof (intro conjI allI impI)
  show eq: "model_branch c B tracks mode itrk =
      Inr (f_div (BIRKS_Ab c)
             (f_add (Fin 1)
                (f_div (f_mul (BIRKS_kb c) (dEdx (tracks ! itrk))) (f_mul (E_FIELD c) (LAR_DENSITY c)))),
           tracks)"
    using assms(1,2) by (simp add: model_branch_def birks_recomb_def)
  fix A k e \<rho> d
  assume h: "BIRKS_Ab c = Fin A \<and> BIRKS_kb c = Fin k \<and> E_FIELD c = Fin e \<and>
        LAR_DENSITY c = Fin \<rho> \<and> dEdx (tracks ! itrk) = Fin d \<and>
        0 < A \<and> 0 < k \<and> 0 < e \<and> 0 < \<rho> \<and> 0 \<le> d"
  then have p: "0 < A" "0 < k" "0 < e" "0 < \<rho>" "0 \<le> d" by simp_all
  from eq h birks_value [OF p]
  show "\<exists>r. model_branch c B tracks mode itrk = Inr (Fin r, tracks) \<and> 0 \<le> r \<and> r \<le> A"
    by (intro exI [of _ "A / (1 + k * d / (e * \<rho>))"]) simp
qed

theorem birks_branch_witness:
  "model_branch sample_consts sample_borders [sample_track] 2 0 =
      Inr (f_div (BIRKS_Ab sample_consts)
             (f_add (Fin 1)
                (f_div (f_mul (BIRKS_kb sample_consts) (dEdx ([sample_track] ! 0)))
                   (f_mul (E_FIELD sample_consts) (LAR_DENSITY sample_consts)))),
           [sample_track]) \<and>
    (\<exists>r. model_branch sample_consts sample_borders [sample_track] 2 0 = Inr (Fin r, [sample_track]) \<and>
       0 \<le> r \<and> r \<le> 8 / 10)"
proof -
  have m: "2 = BIRKS sample_consts" and n: "BIRKS sample_consts \<noteq> BOX sample_consts"
    by (simp_all add: sample_defs)
  have l: "0 < length [sample_track]" by simp
  have a: "BIRKS_Ab sample_consts = Fin (8 / 10) \<and> BIRKS_kb sample_consts = Fin (486 / 10000) \<and>
     E_FIELD sample_consts = Fin (1 / 2) \<and> LAR_DENSITY sample_consts = Fin (14 / 10) \<and>
     dEdx ([sample_track] ! 0) = Fin 2 \<and>
     (0::real) < 8 / 10 \<and> (0::real) < 486 / 10000 \<and> (0::real) < 1 / 2 \<and> (0::real) < 14 / 10 \<and>
     (0::real) \<le> 2"
    by (simp add: sample_defs)
  note t = birks_branch [OF m n l, of sample_borders]
  from t have c1: "model_branch sample_consts sample_borders [sample_track] 2 0 =
      Inr (f_div (BIRKS_Ab sample_consts)
             (f_add (Fin 1)
                (f_div (f_mul (BIRKS_kb sample_consts) (dEdx ([sample_track] ! 0)))
                   (f_mul (E_FIELD sample_consts) (LAR_DENSITY sample_consts)))),
           [sample_track])" by (rule conjunct1)
  from t a have c2: "\<exists>r. model_branch sample_consts sample_borders [sample_track] 2 0 =
      Inr (Fin r, [sample_track]) \<and> 0 \<le> r \<and> r \<le> 8 / 10"
    by blast
  from c1 c2 show ?thesis by (intro conjI)
qed

text \<open>
  C4. Under DATA the field \<open>pixel_plane\<close> of the segment receives the index of the first
  plane of the table whose padded box contains the segment's point: a plane that contains
  the point is chosen only if no plane before it does.
\<close>

theorem data_first_plane:
  assumes "mode = DATA c" and "DATA c \<noteq> BOX c" and "DATA c \<noteq> BIRKS c"
    and "itrk < length tracks"
    and "i < length B" and "in_padded_box (B ! i) (tracks ! itrk)"
    and "\<forall>j<i. \<not> in_padded_box (B ! j) (tracks ! itrk)"
  shows "pixel_plane (array_after (quench c B tracks mode itrk) ! itrk) = int i"
  using quench_data_array [OF assms(1-4)] scan_planes_first [OF assms(5-7), of 0] by simp

theorem data_first_plane_witness:
  "in_padded_box (sample_borders ! 0) ([sample_track] ! 0) \<and>
   in_padded_box (sample_borders ! 1) ([sample_track] ! 0) \<and>
   pixel_plane (array_after (quench sample_consts sample_borders [sample_track] 3 0) ! 0) = int 0"
proof -
  have m: "3 = DATA sample_consts" "DATA sample_consts \<noteq> BOX sample_consts"
    "DATA sample_consts \<noteq> BIRKS sample_consts"
    by (simp_all add: sample_defs)
  have l: "0 < length [sample_track]" "0 < length sample_borders"
    by (simp_all add: sample_defs)
  have b0: "in_padded_box (sample_borders ! 0) ([sample_track] ! 0)"
    by (simp add: kernel_defs sample_defs)
  have b1: "in_padded_box (sample_borders ! 1) ([sample_track] ! 0)"
    by (simp add: kernel_defs sample_defs)
  have f: "\<forall>j<0. \<not> in_padded_box (sample_borders ! j) ([sample_track] ! 0)" by simp
  from b0 b1 data_first_plane [OF m l b0 f] show ?thesis by (intro conjI)
qed

text \<open>
  C5. Under DATA, when no padded box contains the segment's point, \<open>pixel_plane\<close> ends at
  \<open>DEFAULT_PLANE_INDEX\<close>, the drift attenuation is skipped and \<open>recomb\<close> keeps its initial
  value \<open>0\<close>; the thread completes, and for finite \<open>dE\<close> and a finite non-zero \<open>W_ION\<close> it
  writes \<open>n_electrons = 0\<close> and \<open>n_photons = (dE / W_PH) * SCINT_PRESCALE\<close>.
\<close>

theorem data_no_plane:
  assumes "mode = DATA c" and "DATA c \<noteq> BOX c" and "DATA c \<noteq> BIRKS c"
    and "itrk < length tracks"
    and "\<forall>p \<in> set B. \<not> in_padded_box p (tracks ! itrk)"
  shows "model_branch c B tracks mode itrk =
      Inr (Fin 0, tracks[itrk := (tracks ! itrk)\<lparr>pixel_plane := DEFAULT_PLANE_INDEX c\<rparr>]) \<and>
    (\<exists>tracks'. quench c B tracks mode itrk = Inr tracks' \<and>
       pixel_plane (tracks' ! itrk) = DEFAULT_PLANE_INDEX c \<and>
       n_electrons (tracks' ! itrk) = f_div (f_mul (Fin 0) (dE (tracks ! itrk))) (W_ION c) \<and>
       (\<forall>d w. dE (tracks ! itrk) = Fin d \<and> W_ION c = Fin w \<and> w \<noteq> 0 \<longrightarrow>
          n_electrons (tracks' ! itrk) = Fin 0 \<and>
          n_photons (tracks' ! itrk) = f_mul (f_div (dE (tracks ! itrk)) (W_PH c)) (SCINT_PRESCALE c)))"
proof -
  have s: "scan_planes (tracks ! itrk) B 0 (DEFAULT_PLANE_INDEX c) = DEFAULT_PLANE_INDEX c"
    using assms(5) by (rule scan_planes_none)
  have mb: "model_branch c B tracks mode itrk =
      Inr (Fin 0, tracks[itrk := (tracks ! itrk)\<lparr>pixel_plane := DEFAULT_PLANE_INDEX c\<rparr>])"
    using assms(1-3) s by (simp add: model_branch_def Let_def)
  define tracks' where "tracks' = array_after (quench c B tracks mode itrk)"
  have q: "quench c B tracks mode itrk = Inr tracks'"
    unfolding tracks'_def using assms(4) mb by (simp add: quench_def Let_def)
  have pp: "pixel_plane (tracks' ! itrk) = DEFAULT_PLANE_INDEX c"
    unfolding tracks'_def using assms(4) mb by (simp add: quench_def Let_def)
  have ne: "n_electrons (tracks' ! itrk) = f_div (f_mul (Fin 0) (dE (tracks ! itrk))) (W_ION c)"
    unfolding tracks'_def using assms(4) mb by (simp add: quench_def Let_def)
  have np: "n_photons (tracks' ! itrk) =
      f_mul (f_sub (f_div (dE (tracks ! itrk)) (W_PH c)) (n_electrons (tracks' ! itrk)))
        (SCINT_PRESCALE c)"
    unfolding tracks'_def using assms(4) mb by (simp add: quench_def Let_def)
  have fin: "n_electrons (tracks' ! itrk) = Fin 0 \<and>
          n_photons (tracks' ! itrk) = f_mul (f_div (dE (tracks ! itrk)) (W_PH c)) (SCINT_PRESCALE c)"
    if "dE (tracks ! itrk) = Fin d \<and> W_ION c = Fin w \<and> w \<noteq> 0" for d w
  proof -
    from that ne have z: "n_electrons (tracks' ! itrk) = Fin 0" by simp
    with np show ?thesis by (simp add: f_sub_zero)
  qed
  from mb q pp ne fin show ?thesis by blast
qed

theorem data_no_plane_witness:
  "model_branch sample_consts sample_borders [far_track] 3 0 =
      Inr (Fin 0, [far_track][0 := ([far_track] ! 0)\<lparr>pixel_plane := DEFAULT_PLANE_INDEX sample_consts\<rparr>]) \<and>
    (\<exists>tracks'. quench sample_consts sample_borders [far_track] 3 0 = Inr tracks' \<and>
       pixel_plane (tracks' ! 0) = DEFAULT_PLANE_INDEX sample_consts \<and>
       n_electrons (tracks' ! 0) = Fin 0 \<and>
       n_photons (tracks' ! 0) =
         f_mul (f_div (dE ([far_track] ! 0)) (W_PH sample_consts)) (SCINT_PRESCALE sample_consts))"
proof -
  have m: "3 = DATA sample_consts" "DATA sample_consts \<noteq> BOX sample_consts"
    "DATA sample_consts \<noteq> BIRKS sample_consts"
    by (simp_all add: sample_defs)
  have l: "0 < length [far_track]" by simp
  have n: "\<forall>p \<in> set sample_borders. \<not> in_padded_box p ([far_track] ! 0)"
    by (simp add: kernel_defs sample_defs)
  have a: "dE ([far_track] ! 0) = Fin 10 \<and> W_ION sample_consts = Fin (236 / 10000000) \<and>
     (236 / 10000000 :: real) \<noteq> 0"
    by (simp add: sample_defs)
  note t = data_no_plane [OF m l n]
  from t have c1: "model_branch sample_consts sample_borders [far_track] 3 0 =
      Inr (Fin 0, [far_track][0 := ([far_track] ! 0)\<lparr>pixel_plane := DEFAULT_PLANE_INDEX sample_consts\<rparr>])"
    by (rule conjunct1)
  from t a have c2: "\<exists>tracks'. quench sample_consts sample_borders [far_track] 3 0 = Inr tracks' \<and>
       pixel_plane (tracks' ! 0) = DEFAULT_PLANE_INDEX sample_consts \<and>
       n_electrons (tracks' ! 0) = Fin 0 \<and>
       n_photons (tracks' ! 0) =
         f_mul (f_div (dE ([far_track] ! 0)) (W_PH sample_consts)) (SCINT_PRESCALE sample_consts)"
    by blast
  from c1 c2 show ?thesis by (intro conjI)
qed

text \<open>
  C6. The claim describes what line 52 is written to do; the code does not do it. Under
  DATA, when the first matching plane has index \<open>i\<close> and \<open>i\<close> is not the sentinel, the
  thread writes \<open>pixel_plane = i\<close> and then raises \<^verbatim>\<open>NameError\<close> at the call of \<^verbatim>\<open>exp\<close>:
  no value of \<open>recomb\<close> is produced, and \<open>n_electrons\<close> and \<open>n_photons\<close> are not written.
\<close>

theorem data_selected_raises:
  assumes "mode = DATA c" and "DATA c \<noteq> BOX c" and "DATA c \<noteq> BIRKS c"
    and "itrk < length tracks"
    and "i < length B" and "in_padded_box (B ! i) (tracks ! itrk)"
    and "\<forall>j<i. \<not> in_padded_box (B ! j) (tracks ! itrk)"
    and "int i \<noteq> DEFAULT_PLANE_INDEX c"
  shows "model_branch c B tracks mode itrk =
      Inl (NameError, tracks[itrk := (tracks ! itrk)\<lparr>pixel_plane := int i\<rparr>]) \<and>
    quench c B tracks mode itrk =
      Inl (NameError, tracks[itrk := (tracks ! itrk)\<lparr>pixel_plane := int i\<rparr>])"
proof -
  have s: "scan_planes (tracks ! itrk) B 0 (DEFAULT_PLANE_INDEX c) = int i"
    using scan_planes_first [OF assms(5-7), of 0] by simp
  with assms(1-3,8) have mb: "model_branch c B tracks mode itrk =
      Inl (NameError, tracks[itrk := (tracks ! itrk)\<lparr>pixel_plane := int i\<rparr>])"
    by (simp add: model_branch_def Let_def)
  with assms(4) show ?thesis by (simp add: quench_def)
qed

theorem data_selected_raises_witness:
  "model_branch sample_consts sample_borders [second_track] 3 0 =
      Inl (NameError, [second_track][0 := ([second_track] ! 0)\<lparr>pixel_plane := int 1\<rparr>]) \<and>
    quench sample_consts sample_borders [second_track] 3 0 =
      Inl (NameError, [second_track][0 := ([second_track] ! 0)\<lparr>pixel_plane := int 1\<rparr>])"
proof -
  have m: "3 = DATA sample_consts" "DATA sample_consts \<noteq> BOX sample_consts"
    "DATA sample_consts \<noteq> BIRKS sample_consts"
    by (simp_all add: sample_defs)
  have l: "0 < length [second_track]" "1 < length sample_borders"
    by (simp_all add: sample_defs)
  have b1: "in_padded_box (sample_borders ! 1) ([second_track] ! 0)"
    by (simp add: kernel_defs sample_defs)
  have f: "\<forall>j<1. \<not> in_padded_box (sample_borders ! j) ([second_track] ! 0)"
    by (simp add: kernel_defs sample_defs)
  have d: "int 1 \<noteq> DEFAULT_PLANE_INDEX sample_consts" by (simp add: sample_defs)
  show ?thesis by (rule data_selected_raises [OF m l b1 f d])
qed

text \<open>
  C7. With a mode that is none of BOX, BIRKS and DATA, every thread that addresses a segment
  raises the error of the invalid mode, and no thread changes the array: no segment of the
  batch receives an output.
\<close>

theorem invalid_mode_raises:
  assumes "mode \<noteq> BOX c" and "mode \<noteq> BIRKS c" and "mode \<noteq> DATA c"
  shows "(\<forall>itrk<length tracks. quench c B tracks mode itrk = Inl (ValueError, tracks)) \<and>
    (\<forall>itrk. array_after (quench c B tracks mode itrk) = tracks)"
  using assms by (simp add: quench_def model_branch_def)

theorem invalid_mode_raises_witness:
  "quench sample_consts sample_borders [sample_track, far_track] 9 0 =
     Inl (ValueError, [sample_track, far_track]) \<and>
   quench sample_consts sample_borders [sample_track, far_track] 9 1 =
     Inl (ValueError, [sample_track, far_track]) \<and>
   array_after (quench sample_consts sample_borders [sample_track, far_track] 9 2) =
     [sample_track, far_track]"
proof -
  have m: "9 \<noteq> BOX sample_consts" "9 \<noteq> BIRKS sample_consts" "9 \<noteq> DATA sample_consts"
    by (simp_all add: sample_defs)
  note t = invalid_mode_raises [OF m, of "[sample_track, far_track]" sample_borders]
  have l: "0 < length [sample_track, far_track]" "1 < length [sample_track, far_track]"
    by simp_all
  from t l show ?thesis by blast
qed

text \<open>
  C8, as the spec states it, fails at its own example: a segment with \<open>dEdx = 0\<close> under BOX
  does not raise. With the sample constants \<open>csi = 0\<close>, the quotient \<open>log(BOX_ALPHA) / csi\<close>
  is minus infinity, \<open>max(0, ...)\<close> keeps \<open>0\<close>, and the thread completes.
\<close>

theorem box_zero_dEdx_completes:
  "dEdx still_track = Fin 0 \<and>
   box_recomb sample_consts (dEdx still_track) = Fin 0 \<and>
   quench sample_consts sample_borders [still_track] (BOX sample_consts) 0 =
     Inr [still_track\<lparr>n_electrons := Fin 0, n_photons := Fin (20000000 / 39)\<rparr>] \<and>
   quench sample_consts sample_borders [still_track] (BOX sample_consts) 0 \<noteq>
     Inl (RuntimeError, [still_track])"
  by (simp add: kernel_defs sample_defs)

text \<open>
  C8, amended. When the selected branch produces a not-a-number \<open>recomb\<close>, the thread raises
  the error of the invalid recombination value, and \<open>n_electrons\<close> and \<open>n_photons\<close> of the
  segment are as they were. Under BOX the branch never produces a not-a-number \<open>recomb\<close>, so
  every thread that addresses a segment completes, whatever \<open>dEdx\<close> is.
\<close>

theorem nan_recomb_raises:
  assumes "itrk < length tracks"
  shows "(\<forall>recomb tracks1. model_branch c B tracks mode itrk = Inr (recomb, tracks1) \<and> isnan recomb \<longrightarrow>
       quench c B tracks mode itrk = Inl (RuntimeError, tracks1) \<and>
       n_electrons (tracks1 ! itrk) = n_electrons (tracks ! itrk) \<and>
       n_photons (tracks1 ! itrk) = n_photons (tracks ! itrk)) \<and>
    (mode = BOX c \<longrightarrow> (\<exists>recomb tracks'. model_branch c B tracks mode itrk = Inr (recomb, tracks) \<and>
       \<not> isnan recomb \<and> quench c B tracks mode itrk = Inr tracks'))"
proof (intro conjI allI impI)
  fix recomb tracks1
  assume h: "model_branch c B tracks mode itrk = Inr (recomb, tracks1) \<and> isnan recomb"
  then show "quench c B tracks mode itrk = Inl (RuntimeError, tracks1)"
    using assms by (simp add: quench_def)
  from h have "model_branch c B tracks mode itrk = Inr (recomb, tracks1)" by simp
  from model_branch_array [OF this] assms
  show "n_electrons (tracks1 ! itrk) = n_electrons (tracks ! itrk)"
    and "n_photons (tracks1 ! itrk) = n_photons (tracks ! itrk)"
    by auto
next
  assume b: "mode = BOX c"
  then have mb: "model_branch c B tracks mode itrk = Inr (box_recomb c (dEdx (tracks ! itrk)), tracks)"
    by (simp add: model_branch_def)
  have nn: "\<not> isnan (box_recomb c (dEdx (tracks ! itrk)))" by (rule box_recomb_not_nan)
  from assms mb nn have "\<exists>tracks'. quench c B tracks mode itrk = Inr tracks'"
    by (simp add: quench_def Let_def)
  with mb nn
  show "\<exists>recomb tracks'. model_branch c B tracks mode itrk = Inr (recomb, tracks) \<and>
       \<not> isnan recomb \<and> quench c B tracks mode itrk = Inr tracks'"
    by blast
qed

theorem nan_recomb_raises_witness:
  "model_branch sample_consts sample_borders [nan_track] 2 0 = Inr (NaN, [nan_track]) \<and> isnan NaN \<and>
   quench sample_consts sample_borders [nan_track] 2 0 = Inl (RuntimeError, [nan_track]) \<and>
   n_electrons ([nan_track] ! 0) = n_electrons ([nan_track] ! 0) \<and>
   n_photons ([nan_track] ! 0) = n_photons ([nan_track] ! 0) \<and>
   (\<exists>recomb tracks'. model_branch sample_consts sample_borders [still_track] 1 0 = Inr (recomb, [still_track]) \<and>
       \<not> isnan recomb \<and> quench sample_consts sample_borders [still_track] 1 0 = Inr tracks')"
proof -
  have l: "0 < length [nan_track]" "0 < length [still_track]" by simp_all
  have h: "model_branch sample_consts sample_borders [nan_track] 2 0 = Inr (NaN, [nan_track]) \<and> isnan NaN"
    by (simp add: kernel_defs sample_defs)
  have m: "1 = BOX sample_consts" by (simp add: sample_defs)
  note t1 = nan_recomb_raises [OF l(1), of sample_consts sample_borders 2]
  note t2 = nan_recomb_raises [OF l(2), of sample_consts sample_borders 1]
  from t1 h have c1: "quench sample_consts sample_borders [nan_track] 2 0 = Inl (RuntimeError, [nan_track]) \<and>
   n_electrons ([nan_track] ! 0) = n_electrons ([nan_track] ! 0) \<and>
   n_photons ([nan_track] ! 0) = n_photons ([nan_track] ! 0)"
    by blast
  from t2 m have c2: "\<exists>recomb tracks'. model_branch sample_consts sample_borders [still_track] 1 0 = Inr (recomb, [still_track]) \<and>
       \<not> isnan recomb \<and> quench sample_consts sample_borders [still_track] 1 0 = Inr tracks'"
    by blast
  from h c1 c2 show ?thesis by blast
qed

text \<open>
  C9. A thread that completes leaves the length of the array and every segment other than
  its own unchanged; in its own segment the fields \<open>dEdx\<close>, \<open>dE\<close>, \<open>x\<close>, \<open>y\<close>, \<open>z\<close> and
  every field the kernel does not name are unchanged, and so is \<open>pixel_plane\<close> under BOX and
  BIRKS.
\<close>

theorem quench_frame:
  assumes "quench c B tracks mode itrk = Inr tracks'"
  shows "length tracks' = length tracks \<and>
    (\<forall>j<length tracks. j \<noteq> itrk \<longrightarrow> tracks' ! j = tracks ! j) \<and>
    (itrk < length tracks \<longrightarrow>
       dEdx (tracks' ! itrk) = dEdx (tracks ! itrk) \<and> dE (tracks' ! itrk) = dE (tracks ! itrk) \<and>
       x (tracks' ! itrk) = x (tracks ! itrk) \<and> y (tracks' ! itrk) = y (tracks ! itrk) \<and>
       z (tracks' ! itrk) = z (tracks ! itrk) \<and>
       track.more (tracks' ! itrk) = track.more (tracks ! itrk) \<and>
       (mode = BOX c \<or> mode = BIRKS c \<longrightarrow>
          pixel_plane (tracks' ! itrk) = pixel_plane (tracks ! itrk)))"
proof (cases "itrk < length tracks")
  case False
  with assms have "tracks' = tracks" by (simp add: quench_def)
  with False show ?thesis by simp
next
  case True
  from quench_shape [OF assms True] obtain pp ne np where
    "tracks' = tracks[itrk := (tracks ! itrk)
       \<lparr>pixel_plane := (if mode = BOX c \<or> mode = BIRKS c then pixel_plane (tracks ! itrk) else pp),
        n_electrons := ne, n_photons := np\<rparr>]"
    by blast
  with True show ?thesis by simp
qed

theorem quench_frame_witness:
  "length [sample_track\<lparr>n_electrons := Fin (35000000000 / 117587),
       n_photons := Fin (986740000000 / 4585893)\<rparr>, far_track] = length [sample_track, far_track] \<and>
   [sample_track\<lparr>n_electrons := Fin (35000000000 / 117587),
       n_photons := Fin (986740000000 / 4585893)\<rparr>, far_track] ! 1 = [sample_track, far_track] ! 1 \<and>
   dEdx ([sample_track\<lparr>n_electrons := Fin (35000000000 / 117587),
       n_photons := Fin (986740000000 / 4585893)\<rparr>, far_track] ! 0) = dEdx ([sample_track, far_track] ! 0) \<and>
   pixel_plane ([sample_track\<lparr>n_electrons := Fin (35000000000 / 117587),
       n_photons := Fin (986740000000 / 4585893)\<rparr>, far_track] ! 0) = pixel_plane ([sample_track, far_track] ! 0)"
proof -
  have h: "quench sample_consts sample_borders [sample_track, far_track] 2 0 =
     Inr [sample_track\<lparr>n_electrons := Fin (35000000000 / 117587),
       n_photons := Fin (986740000000 / 4585893)\<rparr>, far_track]"
    by (simp add: kernel_defs sample_defs)
  have l: "1 < length [sample_track, far_track]" "(1::nat) \<noteq> 0" "0 < length [sample_track, far_track]"
    by simp_all
  have m: "2 = BOX sample_consts \<or> 2 = BIRKS sample_consts" by (simp add: sample_defs)
  from quench_frame [OF h] l m show ?thesis by blast
qed

text \<open>
  C10. The bound \<open>recomb \<ge> 1\<close> is what the exponential of line 52 would give; on the code
  no thread with a selected plane reaches lines 60 and 61. For the sample segment inside
  the first box, with positive \<open>V_DRIFT\<close>, \<open>ELECTRON_LIFETIME\<close> and \<open>W_ION\<close> and \<open>dE = 10\<close>,
  the thread raises \<^verbatim>\<open>NameError\<close>, and \<open>n_electrons\<close> keeps the value \<open>0\<close> it had, which is
  below \<open>dE / W_ION\<close>.
\<close>

theorem data_amplification_not_reached:
  "quench sample_consts sample_borders [sample_track] (DATA sample_consts) 0 =
     Inl (NameError, [sample_track\<lparr>pixel_plane := 0\<rparr>]) \<and>
   n_electrons (array_after
     (quench sample_consts sample_borders [sample_track] (DATA sample_consts) 0) ! 0) = Fin 0 \<and>
   f_div (dE sample_track) (W_ION sample_consts) = Fin (25000000 / 59) \<and>
   \<not> f_le (f_div (dE sample_track) (W_ION sample_consts))
     (n_electrons (array_after
        (quench sample_consts sample_borders [sample_track] (DATA sample_consts) 0) ! 0))"
  by (simp add: kernel_defs sample_defs)

end
